theory Spec2Isabelle
  imports Complex_Main
begin

section \<open>Tokens\<close>

text \<open>
  The class \<open>TokenType\<close> of \<open>calculator.py\<close> numbers seven kinds from 1 to 7. The lexer
  keeps the kind of the token it is building in \<open>current_type\<close>, where 0 says that no
  token is open: the model writes that variable as an option, \<open>None\<close> for 0.
\<close>

datatype TokenType =
    DOT
  | SIGN
  | NUMBER
  | BRACKET
  | SECOND_PRIORITY_OP
  | THIRD_PRIORITY_OP
  | CONSTANT_OR_FUNCTION_NAME

text \<open>
  A \<open>Token\<close> holds its text and its kind. The third attribute of the class, the table
  \<open>type_annotation\<close>, only serves \<open>__repr__\<close> and is left out.
\<close>

record Token =
  token_str :: string
  token_type :: TokenType

definition is_left_bracket :: "Token \<Rightarrow> bool" where
  "is_left_bracket t = (token_str t = ''('')"

definition is_right_bracket :: "Token \<Rightarrow> bool" where
  "is_right_bracket t = (token_str t = '')'')"

definition dot_tokens :: "char list" where
  "dot_tokens = ''.''"

definition bracket_tokens :: "char list" where
  "bracket_tokens = ''()''"

definition second_priority_tokens :: "char list" where
  "second_priority_tokens = ''*/''"

definition third_priority_tokens :: "char list" where
  "third_priority_tokens = ''+-''"

section \<open>The lexer\<close>

text \<open>
  The input is an ASCII string (section 6 of the specification). On ASCII characters
  Python's \<open>str.isnumeric\<close> holds of the ten digits and \<open>str.isalpha\<close> of the fifty-two
  letters; a character of the model outside ASCII counts as neither.
\<close>

definition isnumeric :: "char \<Rightarrow> bool" where
  "isnumeric v = (v \<in> set ''0123456789'')"

definition isalpha :: "char \<Rightarrow> bool" where
  "isalpha v = (v \<in> set ''abcdefghijklmnopqrstuvwxyzABCDEFGHIJKLMNOPQRSTUVWXYZ'')"

text \<open>The three variables that \<open>lex\<close> updates while it scans: the state of its loop.\<close>

record lexer =
  result :: "Token list"
  current_type :: "TokenType option"
  current_str :: string

text \<open>The local function \<open>push\<close>: append the open token, if there is one, and reset.\<close>

definition push :: "lexer \<Rightarrow> lexer" where
  "push s =
     \<lparr>result = (case current_type s of
                  None \<Rightarrow> result s
                | Some t \<Rightarrow> result s @ [\<lparr>token_str = current_str s, token_type = t\<rparr>]),
      current_type = None,
      current_str = []\<rparr>"

text \<open>
  One pass through the body of the \<open>while\<close> loop, for the character \<open>v\<close>. The five
  \<open>if\<close> blocks each end in \<open>continue\<close>; a character that enters none of them falls off
  the end of the body, which holds no statement after the last block.
\<close>

definition lex_char :: "char \<Rightarrow> lexer \<Rightarrow> lexer" where
  "lex_char v s =
     (if isnumeric v \<or> v \<in> set dot_tokens then
        (if current_type s = Some NUMBER then s\<lparr>current_str := current_str s @ [v]\<rparr>
         else (push s)\<lparr>current_str := [v], current_type := Some NUMBER\<rparr>)
      else if isalpha v then
        (if current_type s = Some CONSTANT_OR_FUNCTION_NAME
         then s\<lparr>current_str := current_str s @ [v]\<rparr>
         else (push s)\<lparr>current_str := [v], current_type := Some CONSTANT_OR_FUNCTION_NAME\<rparr>)
      else if v \<in> set third_priority_tokens then
        (let s1 = push s;
             t = (if result s1 = [] \<or>
                     token_type (last (result s1)) \<in> {SECOND_PRIORITY_OP, THIRD_PRIORITY_OP}
                  then SIGN else THIRD_PRIORITY_OP)
         in push (s1\<lparr>current_type := Some t, current_str := [v]\<rparr>))
      else if v \<in> set second_priority_tokens then
        push ((push s)\<lparr>current_str := [v], current_type := Some SECOND_PRIORITY_OP\<rparr>)
      else if v \<in> set bracket_tokens then
        push ((push s)\<lparr>current_str := [v], current_type := Some BRACKET\<rparr>)
      else s)"

text \<open>
  The loop over the positions of the string, from left to right, and the method \<open>lex\<close>
  itself (\<open>lex_str\<close> here: the list library already has a constant \<open>lex\<close>).
\<close>

fun lex_loop :: "string \<Rightarrow> lexer \<Rightarrow> lexer" where
  "lex_loop [] s = s"
| "lex_loop (v # vs) s = lex_loop vs (lex_char v s)"

definition lex_init :: lexer where
  "lex_init = \<lparr>result = [], current_type = None, current_str = []\<rparr>"

definition lex_str :: "string \<Rightarrow> Token list" where
  "lex_str string = result (push (lex_loop string lex_init))"


section \<open>Expressions\<close>

text \<open>
  The four classes derived from \<open>BaseExpression\<close>. A number keeps the text of its token
  (\<open>float\<close> reads it only when the tree is evaluated), an operator is the text of its
  token.
\<close>

datatype expr =
    NumberExpression string
  | BinaryExpression expr string expr
  | ConstantExpression string
  | FunctionExpression string expr

section \<open>The parser\<close>

text \<open>The exceptions of Python that the parser and the evaluator can raise.\<close>

datatype exc =
    IndexError
  | ValueError
  | AssertionError
  | KeyError
  | AttributeError
  | TypeError
  | ZeroDivisionError
  | OverflowError

text \<open>
  The subscript \<open>token_list[pos]\<close>. An index from 0 to \<open>len - 1\<close> reads from the front,
  an index from \<open>-len\<close> to -1 reads from the back (\<open>-1\<close> is the last token), and any other
  index raises \<open>IndexError\<close>.
\<close>

definition getitem :: "'a list \<Rightarrow> int \<Rightarrow> exc + 'a" where
  "getitem xs i =
     (if 0 \<le> i \<and> i < int (length xs) then Inr (xs ! nat i)
      else if - int (length xs) \<le> i \<and> i < 0 then Inr (xs ! nat (int (length xs) + i))
      else Inl IndexError)"

definition parse_number :: "Token list \<Rightarrow> int \<Rightarrow> exc + expr \<times> int" where
  "parse_number token_list pos =
     (case getitem token_list pos of
        Inl x \<Rightarrow> Inl x
      | Inr current_token \<Rightarrow> Inr (NumberExpression (token_str current_token), 1))"

text \<open>
  The other methods of \<open>ExpressionParser\<close> call one another, and the two \<open>while\<close> loops
  go on for as long as the calls inside them report progress. The model gives every
  call a budget of nested calls; each call and each pass through a loop hands on one
  less. \<open>None\<close> says that the budget ran out; \<open>Some (Inl x)\<close> that the exception \<open>x\<close> was
  raised; \<open>Some (Inr (e, n))\<close> that the pair \<open>(e, n)\<close> was returned.
\<close>

type_synonym 'a outcome = "(exc + 'a) option"

definition and_then :: "'a outcome \<Rightarrow> ('a \<Rightarrow> 'b outcome) \<Rightarrow> 'b outcome" where
  "and_then m f = (case m of None \<Rightarrow> None | Some (Inl x) \<Rightarrow> Some (Inl x) | Some (Inr a) \<Rightarrow> f a)"

definition raise :: "exc \<Rightarrow> 'a outcome" where
  "raise x = Some (Inl x)"

definition return :: "'a \<Rightarrow> 'a outcome" where
  "return a = Some (Inr a)"

definition token_at :: "Token list \<Rightarrow> int \<Rightarrow> Token outcome" where
  "token_at token_list pos = Some (getitem token_list pos)"

text \<open>
  A call of one of the mutually recursive methods, with its arguments. The two loops are
  calls as well, \<open>Parse_third_priority_loop pos current_expr current_length\<close> and
  \<open>Parse_expr_loop pos current_expr current_length\<close>, over their loop variables.
\<close>

datatype call =
    Parse_sign int
  | Parse_bracket int
  | Parse_constant_or_function int
  | Parse_first_priority int
  | Parse_second_priority int expr
  | Parse_third_priority int expr
  | Parse_third_priority_loop int expr int
  | Parse_expr int
  | Parse_expr_loop int expr int

text \<open>
  The bodies of the methods, one case each, in the order of the source. An \<open>assert\<close>
  raises \<open>AssertionError\<close> (the interpreter is run without \<open>-O\<close>).
\<close>

primrec parser :: "nat \<Rightarrow> Token list \<Rightarrow> call \<Rightarrow> (expr \<times> int) outcome" where
  "parser 0 token_list c = None"
| "parser (Suc fuel) token_list c =
    (case c of
      Parse_sign pos \<Rightarrow>
        and_then (token_at token_list pos) (\<lambda>current_token.
        and_then (parser fuel token_list (Parse_first_priority (pos + 1))) (\<lambda>(result, length).
        return (BinaryExpression (NumberExpression ''0'') (token_str current_token) result,
                length + 1)))
    | Parse_bracket pos \<Rightarrow>
        and_then (token_at token_list pos) (\<lambda>current_token.
        if token_type current_token \<noteq> BRACKET then raise AssertionError
        else and_then (parser fuel token_list (Parse_expr (pos + 1))) (\<lambda>(expr, length).
        if token_type current_token \<noteq> BRACKET then raise AssertionError
        else return (expr, length + 2)))
    | Parse_constant_or_function pos \<Rightarrow>
        and_then (token_at token_list pos) (\<lambda>current_token.
        let fn = token_str current_token in
        if pos + 1 = int (length token_list) then return (ConstantExpression fn, 1)
        else and_then (token_at token_list (pos + 1)) (\<lambda>current_token.
        if is_left_bracket current_token
        then and_then (parser fuel token_list (Parse_bracket (pos + 1))) (\<lambda>(expr, length).
             return (FunctionExpression fn expr, 1 + length))
        else return (ConstantExpression fn, 1)))
    | Parse_first_priority pos \<Rightarrow>
        and_then (token_at token_list pos) (\<lambda>current_token.
        if token_type current_token = BRACKET then parser fuel token_list (Parse_bracket pos)
        else if token_type current_token \<in> {DOT, NUMBER}
          then Some (parse_number token_list pos)
        else if token_type current_token = CONSTANT_OR_FUNCTION_NAME
          then parser fuel token_list (Parse_constant_or_function pos)
        else if token_type current_token = SIGN then parser fuel token_list (Parse_sign pos)
        else raise ValueError)
    | Parse_second_priority pos left_expr \<Rightarrow>
        and_then (token_at token_list pos) (\<lambda>current_token.
        and_then (parser fuel token_list (Parse_first_priority (pos + 1)))
          (\<lambda>(right_expr, length).
        return (BinaryExpression left_expr (token_str current_token) right_expr, length + 1)))
    | Parse_third_priority pos left_expr \<Rightarrow>
        and_then (token_at token_list pos) (\<lambda>third_priority_op_token.
        and_then (parser fuel token_list (Parse_first_priority (pos + 1)))
          (\<lambda>(current_expr, length).
        and_then (parser fuel token_list (Parse_third_priority_loop pos current_expr length))
          (\<lambda>(current_expr, current_length).
        return (BinaryExpression left_expr (token_str third_priority_op_token) current_expr,
                current_length + 1))))
    | Parse_third_priority_loop pos current_expr current_length \<Rightarrow>
        if pos + current_length + 1 < int (length token_list) then
          and_then (token_at token_list (current_length + pos + 1)) (\<lambda>current_token.
          if token_type current_token = SECOND_PRIORITY_OP then
            and_then (parser fuel token_list
                        (Parse_second_priority (current_length + pos + 1) current_expr))
              (\<lambda>(current_expr, length).
            parser fuel token_list
              (Parse_third_priority_loop pos current_expr (current_length + length)))
          else return (current_expr, current_length))
        else return (current_expr, current_length)
    | Parse_expr pos \<Rightarrow>
        and_then (parser fuel token_list (Parse_first_priority pos)) (\<lambda>(current_expr, length).
        parser fuel token_list (Parse_expr_loop pos current_expr length))
    | Parse_expr_loop pos current_expr current_length \<Rightarrow>
        if pos + current_length < int (length token_list) then
          and_then (token_at token_list (current_length + pos)) (\<lambda>current_token.
          if token_type current_token = THIRD_PRIORITY_OP then
            and_then (parser fuel token_list
                        (Parse_third_priority (current_length + pos) current_expr))
              (\<lambda>(current_expr, length).
            parser fuel token_list (Parse_expr_loop pos current_expr (current_length + length)))
          else if token_type current_token = SECOND_PRIORITY_OP then
            and_then (parser fuel token_list
                        (Parse_second_priority (current_length + pos) current_expr))
              (\<lambda>(current_expr, length).
            parser fuel token_list (Parse_expr_loop pos current_expr (current_length + length)))
          else return (current_expr, current_length))
        else return (current_expr, current_length))"

text \<open>The methods by their names.\<close>

definition parse_sign :: "nat \<Rightarrow> Token list \<Rightarrow> int \<Rightarrow> (expr \<times> int) outcome" where
  "parse_sign fuel token_list pos = parser fuel token_list (Parse_sign pos)"

definition parse_bracket :: "nat \<Rightarrow> Token list \<Rightarrow> int \<Rightarrow> (expr \<times> int) outcome" where
  "parse_bracket fuel token_list pos = parser fuel token_list (Parse_bracket pos)"

definition parse_constant_or_function ::
  "nat \<Rightarrow> Token list \<Rightarrow> int \<Rightarrow> (expr \<times> int) outcome" where
  "parse_constant_or_function fuel token_list pos =
     parser fuel token_list (Parse_constant_or_function pos)"

definition parse_first_priority :: "nat \<Rightarrow> Token list \<Rightarrow> int \<Rightarrow> (expr \<times> int) outcome" where
  "parse_first_priority fuel token_list pos = parser fuel token_list (Parse_first_priority pos)"

definition parse_second_priority ::
  "nat \<Rightarrow> Token list \<Rightarrow> int \<Rightarrow> expr \<Rightarrow> (expr \<times> int) outcome" where
  "parse_second_priority fuel token_list pos left_expr =
     parser fuel token_list (Parse_second_priority pos left_expr)"

definition parse_third_priority ::
  "nat \<Rightarrow> Token list \<Rightarrow> int \<Rightarrow> expr \<Rightarrow> (expr \<times> int) outcome" where
  "parse_third_priority fuel token_list pos left_expr =
     parser fuel token_list (Parse_third_priority pos left_expr)"

definition parse_expr :: "nat \<Rightarrow> Token list \<Rightarrow> int \<Rightarrow> (expr \<times> int) outcome" where
  "parse_expr fuel token_list pos = parser fuel token_list (Parse_expr pos)"

definition parse_third_priority_loop ::
  "nat \<Rightarrow> Token list \<Rightarrow> int \<Rightarrow> expr \<Rightarrow> int \<Rightarrow> (expr \<times> int) outcome" where
  "parse_third_priority_loop fuel token_list pos current_expr current_length =
     parser fuel token_list (Parse_third_priority_loop pos current_expr current_length)"

definition parse_expr_loop ::
  "nat \<Rightarrow> Token list \<Rightarrow> int \<Rightarrow> expr \<Rightarrow> int \<Rightarrow> (expr \<times> int) outcome" where
  "parse_expr_loop fuel token_list pos current_expr current_length =
     parser fuel token_list (Parse_expr_loop pos current_expr current_length)"

text \<open>
  A budget that is enough for \<open>parse_expr\<close> at \<open>pos\<close>, whatever the tokens are, and the
  parser run with it.
\<close>

definition enough :: "Token list \<Rightarrow> int \<Rightarrow> nat" where
  "enough token_list pos = 3 * nat (int (length token_list) - pos) + 5"

definition parse :: "Token list \<Rightarrow> int \<Rightarrow> (expr \<times> int) outcome" where
  "parse token_list pos = parse_expr (enough token_list pos) token_list pos"

section \<open>The evaluator\<close>

text \<open>
  \<open>eval\<close> returns whatever Python object the tree denotes: a \<open>float\<close>, or some other
  object (a function of the module \<open>math\<close>, \<open>NotImplemented\<close>, an \<open>int\<close> that a function
  of \<open>math\<close> returned). A \<open>float\<close> is modelled by the real number it stands for: rounding,
  overflow to infinity and NaN are outside the model. The other objects are the values
  of a type parameter.
\<close>

datatype 'o pyval = Float real | Object 'o

text \<open>
  What the evaluator takes from Python and its standard library, none of it under
  \<open>calculator.py\<close>: the attributes of the module \<open>math\<close> (\<open>math_attr\<close>, \<open>None\<close> for a
  name that the module does not have); \<open>float\<close> on a string that holds something else
  than digits and points (\<open>float_other\<close>); whether an object that is not a \<open>float\<close> has a
  method (\<open>has_method\<close>) and what that method returns (\<open>call_method\<close>); what a method of a
  \<open>float\<close> returns for an argument that is not a \<open>float\<close> (\<open>float_method\<close>); and what
  calling an object that is not a \<open>float\<close> returns (\<open>call_object\<close>).
\<close>

record 'o python =
  math_attr :: "string \<Rightarrow> 'o pyval option"
  float_other :: "string \<Rightarrow> exc + real"
  has_method :: "'o \<Rightarrow> string \<Rightarrow> bool"
  call_method :: "'o \<Rightarrow> string \<Rightarrow> 'o pyval \<Rightarrow> exc + 'o pyval"
  float_method :: "real \<Rightarrow> string \<Rightarrow> 'o \<Rightarrow> exc + 'o pyval"
  call_object :: "'o \<Rightarrow> 'o pyval \<Rightarrow> exc + 'o pyval"

definition op_map :: "string \<Rightarrow> string option" where
  "op_map = [''+'' \<mapsto> ''__add__'', ''-'' \<mapsto> ''__sub__'', ''*'' \<mapsto> ''__mul__'',
             ''/'' \<mapsto> ''__truediv__'']"

text \<open>
  \<open>float(s)\<close> for a string of digits and points: the digits before the point, the digits
  after it, at least one digit in all and at most one point; \<open>ValueError\<close> otherwise.
\<close>

definition digit_value :: "char \<Rightarrow> nat" where
  "digit_value c = of_char c - 48"

definition decimal :: "string \<Rightarrow> nat" where
  "decimal s = foldl (\<lambda>a c. 10 * a + digit_value c) 0 s"

definition float_str :: "'o python \<Rightarrow> string \<Rightarrow> exc + real" where
  "float_str py s =
     (if list_all (\<lambda>c. isnumeric c \<or> c = CHR ''.'') s then
        (let whole = takeWhile (\<lambda>c. c \<noteq> CHR ''.'') s;
             rest = dropWhile (\<lambda>c. c \<noteq> CHR ''.'') s
         in if rest = [] then (if whole = [] then Inl ValueError else Inr (real (decimal whole)))
            else (let frac = tl rest
                  in if CHR ''.'' \<in> set frac \<or> (whole = [] \<and> frac = []) then Inl ValueError
                     else Inr (real (decimal whole) + real (decimal frac) / 10 ^ length frac)))
      else float_other py s)"

text \<open>
  The four methods of \<open>float\<close> that \<open>op_map\<close> names, on two floats. \<open>__truediv__\<close> raises
  \<open>ZeroDivisionError\<close> when the divisor is zero.
\<close>

definition float_binop :: "string \<Rightarrow> real \<Rightarrow> real \<Rightarrow> exc + real" where
  "float_binop m a b =
     (if m = ''__add__'' then Inr (a + b)
      else if m = ''__sub__'' then Inr (a - b)
      else if m = ''__mul__'' then Inr (a * b)
      else if m = ''__truediv__'' then (if b = 0 then Inl ZeroDivisionError else Inr (a / b))
      else Inl AttributeError)"

text \<open>\<open>getattr(a, m)\<close> succeeds: a \<open>float\<close> has the four methods.\<close>

definition has_attr :: "'o python \<Rightarrow> 'o pyval \<Rightarrow> string \<Rightarrow> bool" where
  "has_attr py a m =
     (case a of
        Float x \<Rightarrow> m \<in> {''__add__'', ''__sub__'', ''__mul__'', ''__truediv__''}
      | Object obj \<Rightarrow> has_method py obj m)"

text \<open>The call \<open>getattr(a, m)(b)\<close> of a method that exists.\<close>

definition call_attr :: "'o python \<Rightarrow> 'o pyval \<Rightarrow> string \<Rightarrow> 'o pyval \<Rightarrow> exc + 'o pyval" where
  "call_attr py a m b =
     (case a of
        Float x \<Rightarrow>
          (case b of
             Float y \<Rightarrow> (case float_binop m x y of Inl e \<Rightarrow> Inl e | Inr r \<Rightarrow> Inr (Float r))
           | Object obj \<Rightarrow> float_method py x m obj)
      | Object obj \<Rightarrow> call_method py obj m b)"

text \<open>The call \<open>f(a)\<close>: a \<open>float\<close> is not callable.\<close>

definition call_value :: "'o python \<Rightarrow> 'o pyval \<Rightarrow> 'o pyval \<Rightarrow> exc + 'o pyval" where
  "call_value py f a =
     (case f of Float x \<Rightarrow> Inl TypeError | Object obj \<Rightarrow> call_object py obj a)"

text \<open>
  The four \<open>eval\<close> methods. In \<open>getattr(self.expr1.eval(), op_map[self.op])(self.expr2.eval())\<close>
  Python evaluates the left operand, then the subscript, then \<open>getattr\<close>, then the right
  operand, then the call; in \<open>getattr(math, self.func_name)(self.expr.eval())\<close> it looks
  the name up before it evaluates the argument.
\<close>

primrec eval :: "'o python \<Rightarrow> expr \<Rightarrow> exc + 'o pyval" where
  "eval py (NumberExpression val) =
     (case float_str py val of Inl e \<Rightarrow> Inl e | Inr r \<Rightarrow> Inr (Float r))"
| "eval py (BinaryExpression expr1 op expr2) =
     (case eval py expr1 of
        Inl e \<Rightarrow> Inl e
      | Inr a \<Rightarrow>
          (case op_map op of
             None \<Rightarrow> Inl KeyError
           | Some m \<Rightarrow>
               if \<not> has_attr py a m then Inl AttributeError
               else (case eval py expr2 of
                       Inl e \<Rightarrow> Inl e
                     | Inr b \<Rightarrow> call_attr py a m b)))"
| "eval py (ConstantExpression name) =
     (case math_attr py name of None \<Rightarrow> Inl AttributeError | Some v \<Rightarrow> Inr v)"
| "eval py (FunctionExpression func_name expr) =
     (case math_attr py func_name of
        None \<Rightarrow> Inl AttributeError
      | Some f \<Rightarrow>
          (case eval py expr of
             Inl e \<Rightarrow> Inl e
           | Inr a \<Rightarrow> call_value py f a))"

section \<open>The whole calculator\<close>

text \<open>
  The last two lines of the file, for any string in place of the one written there:
  \<open>e, _ = ExpressionParser(ExpressionLexer(string).lex()).parse_expr(0)\<close>, then \<open>e.eval()\<close>.
\<close>

definition calculate :: "'o python \<Rightarrow> string \<Rightarrow> 'o pyval outcome" where
  "calculate py string = and_then (parse (lex_str string) 0) (\<lambda>(e, n). Some (eval py e))"



section \<open>Predicates used in the statements\<close>

text \<open>A token as the lexer can emit it: some text, and a kind other than \<open>DOT\<close>.\<close>

definition emitted :: "Token \<Rightarrow> bool" where
  "emitted t =
     (token_str t \<noteq> [] \<and>
      token_type t \<in> {NUMBER, SIGN, BRACKET, SECOND_PRIORITY_OP, THIRD_PRIORITY_OP,
                       CONSTANT_OR_FUNCTION_NAME})"

text \<open>The same of a state of the lexer: of the tokens it has, and of the one it has open.\<close>

definition lexer_ok :: "lexer \<Rightarrow> bool" where
  "lexer_ok s =
     (list_all emitted (result s) \<and>
      (case current_type s of
         None \<Rightarrow> True
       | Some t \<Rightarrow> emitted \<lparr>token_str = current_str s, token_type = t\<rparr>))"

text \<open>The kind that the lexer gives a \<open>+\<close> or \<open>-\<close> that comes after the tokens \<open>ts\<close>.\<close>

definition sign_or_binary :: "Token list \<Rightarrow> TokenType" where
  "sign_or_binary ts =
     (if ts = [] \<or> token_type (last ts) \<in> {SECOND_PRIORITY_OP, THIRD_PRIORITY_OP}
      then SIGN else THIRD_PRIORITY_OP)"

section \<open>Properties of the lexer\<close>

lemmas lex_defs = lex_str_def lex_init_def lex_char_def push_def isnumeric_def isalpha_def
  dot_tokens_def third_priority_tokens_def second_priority_tokens_def bracket_tokens_def

lemmas parse_defs = parse_def enough_def parse_expr_def eval_nat_numeral and_then_def return_def
  raise_def token_at_def getitem_def parse_number_def is_left_bracket_def

lemmas eval_defs = calculate_def float_str_def decimal_def digit_value_def op_map_def has_attr_def
  call_attr_def call_value_def float_binop_def







section \<open>Properties of the whole calculator\<close>

lemma calculate_2_plus_3_times_4: "calculate py ''2+3*4'' = Some (Inr (Float 14))"
  by (simp add: lex_defs parse_defs eval_defs)

lemma calculate_bracket_2_plus_3_times_4: "calculate py ''(2+3)*4'' = Some (Inr (Float 20))"
  by (simp add: lex_defs parse_defs eval_defs)

lemma calculate_6_times_minus_2: "calculate py ''6*-2'' = Some (Inr (Float (- 12)))"
  by (simp add: lex_defs parse_defs eval_defs)

text \<open>
  C4. The two tiers of precedence and the unary sign, on the three inputs of the
  specification, whatever the module \<open>math\<close> holds: \<open>2+3*4\<close> is 14, \<open>(2+3)*4\<close> is 20 and
  \<open>6*-2\<close> is -12. The numbers involved are small integers, on which the arithmetic of
  doubles is exact.
\<close>

theorem precedence_examples:
  "calculate py ''2+3*4'' = Some (Inr (Float 14)) \<and>
   calculate py ''(2+3)*4'' = Some (Inr (Float 20)) \<and>
   calculate py ''6*-2'' = Some (Inr (Float (- 12)))"
  by (simp only: calculate_2_plus_3_times_4 calculate_bracket_2_plus_3_times_4
      calculate_6_times_minus_2)

section \<open>Properties of the parser and the evaluator on given inputs\<close>

lemma lex_open_2:
  "lex_str ''(2'' = [\<lparr>token_str = ''('', token_type = BRACKET\<rparr>,
                     \<lparr>token_str = ''2'', token_type = NUMBER\<rparr>]"
  by (simp add: lex_defs)

text \<open>
  C1, at the input on which the code departs from it. \<open>parse_bracket\<close> asserts the kind
  of the token at \<open>pos\<close> a second time after it has parsed the inner expression, and
  never reads the token that should close the bracket. On the two tokens of \<open>(2\<close> it
  returns the inner expression with length 3 = 1 + 2: the position 0 + 1 + 1 that the
  closing bracket should have is past the end of the list.
\<close>

theorem parse_bracket_unclosed:
  "parse_bracket 7 (lex_str ''(2'') 0 = Some (Inr (NumberExpression ''2'', 3)) \<and>
   parse (lex_str ''(2'') 0 = Some (Inr (NumberExpression ''2'', 3)) \<and>
   length (lex_str ''(2'') = 2 \<and>
   getitem (lex_str ''(2'') 2 = Inl IndexError"
  by (simp add: lex_open_2 parse_bracket_def parse_defs)










end
